theory Spec2Isabelle
  imports Main
begin

section \<open>Python helpers\<close>

text \<open>
  The source is Python. Strings are \<open>string\<close>, Python integers are \<open>int\<close>, a value that
  may be \<open>None\<close> is an \<open>option\<close>. The helpers below are the Python built-ins the modelled
  functions use.
\<close>

abbreviation nl :: string where
  "nl \<equiv> [CHR 0x0A]"

abbreviation apostrophe :: string where
  "apostrophe \<equiv> [CHR 0x27]"

text \<open>\<^verbatim>\<open>xs[i:]\<close>: a negative start counts from the end and is clamped at 0, a start
  beyond the end gives the empty list. In particular \<^verbatim>\<open>xs[-0:]\<close> is \<^verbatim>\<open>xs[0:]\<close>, the
  whole list.\<close>

definition py_slice_from :: "int \<Rightarrow> 'a list \<Rightarrow> 'a list" where
  "py_slice_from i xs =
     (let n = int (length xs);
          start = (if i < 0 then max (n + i) 0 else min i n)
      in drop (nat start) xs)"

text \<open>\<^verbatim>\<open>sep.join(xs)\<close>.\<close>

fun join :: "string \<Rightarrow> string list \<Rightarrow> string" where
  "join sep [] = []"
| "join sep [x] = x"
| "join sep (x # y # ys) = x @ sep @ join sep (y # ys)"

text \<open>Truthiness of \<^verbatim>\<open>os.getenv(K)\<close>: \<open>None\<close> and the empty string are falsy.\<close>

definition truthy :: "string option \<Rightarrow> bool" where
  "truthy v = (case v of None \<Rightarrow> False | Some s \<Rightarrow> s \<noteq> [])"

text \<open>How an f-string renders a value that may be \<open>None\<close>.\<close>

definition py_str :: "string option \<Rightarrow> string" where
  "py_str v = (case v of None \<Rightarrow> ''None'' | Some s \<Rightarrow> s)"

type_synonym env = "string \<rightharpoonup> string"

section \<open>memory\_manager.py\<close>

type_synonym exchange = "string \<times> string"

record MemoryManager =
  conversation_history :: "string \<rightharpoonup> exchange list"
  max_history :: int

definition MemoryManager_init :: "int \<Rightarrow> MemoryManager" where
  "MemoryManager_init max_history_per_session =
     \<lparr>conversation_history = Map.empty, max_history = max_history_per_session\<rparr>"

definition MemoryManager_default :: MemoryManager where
  "MemoryManager_default = MemoryManager_init 10"

definition render_exchange :: "exchange \<Rightarrow> string" where
  "render_exchange e = (case e of (q, a) \<Rightarrow> ''Q: '' @ q @ nl @ ''A: '' @ a)"

text \<open>\<open>get_context\<close> returns the context string together with the manager as the call
  leaves it. The method tests membership and reads the history; it assigns nothing.\<close>

definition get_context :: "MemoryManager \<Rightarrow> string \<Rightarrow> string \<times> MemoryManager" where
  "get_context mm session_id =
     (case conversation_history mm session_id of
        None \<Rightarrow> ([], mm)
      | Some history \<Rightarrow>
          (let context_exchanges = py_slice_from (- max_history mm) history
           in (join nl (map render_exchange context_exchanges), mm)))"

definition add_exchange :: "MemoryManager \<Rightarrow> string \<Rightarrow> string \<Rightarrow> string \<Rightarrow> MemoryManager" where
  "add_exchange mm session_id query response =
     (let h0 = (case conversation_history mm session_id of None \<Rightarrow> [] | Some h \<Rightarrow> h);
          h1 = h0 @ [(query, response)];
          h2 = (if int (length h1) > max_history mm
                then py_slice_from (- max_history mm) h1 else h1)
      in mm\<lparr>conversation_history := (conversation_history mm)(session_id \<mapsto> h2)\<rparr>)"

definition clear_session :: "MemoryManager \<Rightarrow> string \<Rightarrow> MemoryManager" where
  "clear_session mm session_id =
     (if conversation_history mm session_id \<noteq> None
      then mm\<lparr>conversation_history := (conversation_history mm)(session_id := None)\<rparr>
      else mm)"

text \<open>Sequences of calls on one manager.\<close>

datatype mem_op =
    AddExchange string string string
  | ClearSession string
  | GetContext string

fun session_of :: "mem_op \<Rightarrow> string" where
  "session_of (AddExchange s q r) = s"
| "session_of (ClearSession s) = s"
| "session_of (GetContext s) = s"

fun apply_op :: "MemoryManager \<Rightarrow> mem_op \<Rightarrow> MemoryManager" where
  "apply_op mm (AddExchange s q r) = add_exchange mm s q r"
| "apply_op mm (ClearSession s) = clear_session mm s"
| "apply_op mm (GetContext s) = snd (get_context mm s)"

definition run_ops :: "MemoryManager \<Rightarrow> mem_op list \<Rightarrow> MemoryManager" where
  "run_ops mm ops = foldl apply_op mm ops"

text \<open>Appending a list of exchanges to one session, one \<open>add_exchange\<close> call each.\<close>

definition add_all :: "MemoryManager \<Rightarrow> string \<Rightarrow> exchange list \<Rightarrow> MemoryManager" where
  "add_all mm session_id es = foldl (\<lambda>m e. add_exchange m session_id (fst e) (snd e)) mm es"

text \<open>The invariant of the specification: no stored history is longer than the maximum.\<close>

definition bounded :: "MemoryManager \<Rightarrow> bool" where
  "bounded mm \<longleftrightarrow>
     (\<forall>s h. conversation_history mm s = Some h \<longrightarrow> int (length h) \<le> max_history mm)"

text \<open>The history stored for a session, empty when the session has no entry.\<close>

definition stored :: "MemoryManager \<Rightarrow> string \<Rightarrow> exchange list" where
  "stored mm s = (case conversation_history mm s of None \<Rightarrow> [] | Some h \<Rightarrow> h)"

section \<open>web\_search.py\<close>

text \<open>A search result as the client builds it: \<^verbatim>\<open>dict.get\<close> yields \<open>None\<close> for a
  key the backend left out.\<close>

record SearchResult =
  title :: "string option"
  link :: "string option"
  snippet :: "string option"
  source :: string

text \<open>One raw result of a backend is a JSON object; the backend's answer holds the list
  of raw results under one key (\<^verbatim>\<open>organic_results\<close>, \<^verbatim>\<open>items\<close>), which may be missing.\<close>

type_synonym raw_result = "string \<rightharpoonup> string"

type_synonym backend_response = "raw_result list option"

record serpapi_params =
  serp_q :: string
  serp_api_key :: "string option"
  serp_engine :: string
  serp_num :: int

record pse_params =
  pse_developerKey :: "string option"
  pse_q :: string
  pse_cx :: "string option"
  pse_num :: int

text \<open>The two external services: \<open>Inl\<close> is the text of an exception, raised by the call
  or while its answer is read inside the same \<^verbatim>\<open>try\<close> block; \<open>Inr\<close> is the backend's
  answer.\<close>

type_synonym serpapi_service = "serpapi_params \<Rightarrow> string + backend_response"

type_synonym pse_service = "pse_params \<Rightarrow> string + backend_response"

record WebSearchClient =
  serpapi_enabled :: bool
  google_pse_enabled :: bool

definition WebSearchClient_init :: "env \<Rightarrow> WebSearchClient" where
  "WebSearchClient_init e =
     \<lparr>serpapi_enabled = truthy (e ''SERPAPI_API_KEY''),
      google_pse_enabled = (truthy (e ''GOOGLE_PSE_ID'') \<and> truthy (e ''GOOGLE_API_KEY''))\<rparr>"

definition to_result :: "string \<Rightarrow> raw_result \<Rightarrow> SearchResult" where
  "to_result src r =
     \<lparr>title = r ''title'', link = r ''link'', snippet = r ''snippet'', source = src\<rparr>"

text \<open>The requests the client sends: both ask the backend for five results.\<close>

definition serpapi_request :: "env \<Rightarrow> string \<Rightarrow> serpapi_params" where
  "serpapi_request e query =
     \<lparr>serp_q = query, serp_api_key = e ''SERPAPI_API_KEY'',
      serp_engine = ''google'', serp_num = 5\<rparr>"

definition pse_request :: "env \<Rightarrow> string \<Rightarrow> pse_params" where
  "pse_request e query =
     \<lparr>pse_developerKey = e ''GOOGLE_API_KEY'', pse_q = query,
      pse_cx = e ''GOOGLE_PSE_ID'', pse_num = 5\<rparr>"

text \<open>Each search function returns its results and the lines it printed.\<close>

definition search_serpapi ::
  "env \<Rightarrow> serpapi_service \<Rightarrow> string \<Rightarrow> SearchResult list \<times> string list" where
  "search_serpapi e serpapi query =
     (let params = serpapi_request e query
      in case serpapi params of
           Inl err \<Rightarrow> ([], [''SerpAPI search error: '' @ err])
         | Inr search \<Rightarrow>
             (map (to_result ''SerpAPI'') (case search of None \<Rightarrow> [] | Some rs \<Rightarrow> rs), []))"

definition search_google_pse ::
  "env \<Rightarrow> pse_service \<Rightarrow> string \<Rightarrow> SearchResult list \<times> string list" where
  "search_google_pse e pse query =
     (let params = pse_request e query
      in case pse params of
           Inl err \<Rightarrow> ([], [''Google PSE search error: '' @ err])
         | Inr result \<Rightarrow>
             (map (to_result ''Google PSE'') (case result of None \<Rightarrow> [] | Some rs \<Rightarrow> rs), []))"

text \<open>The raw results in a backend's answer and their number; none when the call raised
  or the answer has no result list.\<close>

definition raw_results :: "string + backend_response \<Rightarrow> raw_result list" where
  "raw_results answer = (case answer of Inr (Some rs) \<Rightarrow> rs | _ \<Rightarrow> [])"

definition raw_count :: "string + backend_response \<Rightarrow> nat" where
  "raw_count answer = (case answer of Inr (Some rs) \<Rightarrow> length rs | _ \<Rightarrow> 0)"

definition search ::
  "WebSearchClient \<Rightarrow> env \<Rightarrow> serpapi_service \<Rightarrow> pse_service \<Rightarrow> string \<Rightarrow> string
     \<Rightarrow> SearchResult list \<times> string list" where
  "search ws e serpapi pse query engine =
     (if engine = ''auto'' then
        (let (r1, out1) = (if serpapi_enabled ws then search_serpapi e serpapi query
                           else ([], []))
         in if r1 \<noteq> [] then (r1, out1)
            else
              (let (r2, out2) = (if google_pse_enabled ws then search_google_pse e pse query
                                 else ([], []))
               in if r2 \<noteq> [] then (r2, out1 @ out2) else ([], out1 @ out2)))
      else if engine = ''serpapi'' \<and> serpapi_enabled ws then search_serpapi e serpapi query
      else if engine = ''google_pse'' \<and> google_pse_enabled ws then search_google_pse e pse query
      else ([], []))"

definition is_available :: "WebSearchClient \<Rightarrow> bool" where
  "is_available ws \<longleftrightarrow> serpapi_enabled ws \<or> google_pse_enabled ws"

section \<open>ai\_client.py\<close>

text \<open>
  A provider entry. \<open>ProviderBase\<close> has the keys of \<^verbatim>\<open>research_assistant.py\<close>;
  \<^verbatim>\<open>ai_client.py\<close> adds the \<open>enabled\<close> flag. An entry without an \<^verbatim>\<open>api_url\<close> key has
  \<open>api_url = None\<close>, one without a \<^verbatim>\<open>headers\<close> key has no headers; a header value may
  be \<open>None\<close>. The provider table is
  an association list in the order of the dict literal, the order in which Python
  iterates it.
\<close>

record ProviderBase =
  name :: string
  api_key :: "string option"
  api_url :: "string option"
  headers :: "(string \<times> string option) list"

record ProviderConfig = ProviderBase +
  enabled :: bool

text \<open>
  Calls that leave the process. An HTTP request carries the URL, the headers, the JSON
  body and the timeout; the two SDK calls carry the model and the prompt. The sampling
  temperature, a float constant 0.7 in every call, is left out. The transport answers a
  call with the text the adapter extracts from the reply (\<open>Inr\<close>), or with the text of
  the exception raised by the request, the status check or the extraction (\<open>Inl\<close>).
\<close>

datatype payload =
    ChatPayload string "(string \<times> string) list" int
  | MessagesPayload string int string "(string \<times> string) list"

datatype net_call =
    HttpPost string "(string \<times> string option) list" payload "nat option"
  | GenaiGenerate string string
  | HFTextGeneration string "string option" string int

type_synonym transport = "net_call \<Rightarrow> string + string"

record AIClient =
  providers :: "(string \<times> ProviderConfig) list"
  genai_api_key :: "string option"

definition preamble :: string where
  "preamble = ''You are a helpful research assistant. Provide detailed, accurate information with sources when possible.''"

definition bearer_headers :: "string option \<Rightarrow> (string \<times> string option) list" where
  "bearer_headers k =
     [(''Authorization'', Some (''Bearer '' @ py_str k)),
      (''Content-Type'', Some ''application/json'')]"

text \<open>The Anthropic header \<^verbatim>\<open>x-api-key\<close> holds the value of \<^verbatim>\<open>os.getenv\<close> itself, which
  is \<open>None\<close> when the variable is unset.\<close>

definition anthropic_headers :: "string option \<Rightarrow> (string \<times> string option) list" where
  "anthropic_headers k =
     [(''x-api-key'', k), (''anthropic-version'', Some ''2023-06-01''),
      (''Content-Type'', Some ''application/json'')]"

definition initialize_providers :: "env \<Rightarrow> (string \<times> ProviderConfig) list" where
  "initialize_providers e =
     [(''deepseek'',
        \<lparr>name = ''DeepSeek'', api_key = e ''DEEPSEEK_API_KEY'',
         api_url = Some ''https://api.deepseek.com/v1/chat/completions'',
         headers = bearer_headers (e ''DEEPSEEK_API_KEY''),
         enabled = truthy (e ''DEEPSEEK_API_KEY'')\<rparr>),
      (''openai'',
        \<lparr>name = ''OpenAI'', api_key = e ''OPENAI_API_KEY'',
         api_url = Some ''https://api.openai.com/v1/chat/completions'',
         headers = bearer_headers (e ''OPENAI_API_KEY''),
         enabled = truthy (e ''OPENAI_API_KEY'')\<rparr>),
      (''anthropic'',
        \<lparr>name = ''Anthropic'', api_key = e ''ANTHROPIC_API_KEY'',
         api_url = Some ''https://api.anthropic.com/v1/messages'',
         headers = anthropic_headers (e ''ANTHROPIC_API_KEY''),
         enabled = truthy (e ''ANTHROPIC_API_KEY'')\<rparr>),
      (''gemini'',
        \<lparr>name = ''Google Gemini'', api_key = e ''GEMINI_API_KEY'',
         api_url = None, headers = [],
         enabled = truthy (e ''GEMINI_API_KEY'')\<rparr>),
      (''huggingface'',
        \<lparr>name = ''Hugging Face'', api_key = e ''HUGGINGFACE_API_KEY'',
         api_url = Some ''https://api-inference.huggingface.co/models/mistralai/Mixtral-8x7B-Instruct-v0.1'',
         headers = [],
         enabled = truthy (e ''HUGGINGFACE_API_KEY'')\<rparr>)]"

text \<open>\<open>genai_api_key\<close> is the key registered with the Gemini SDK, if any.\<close>

definition AIClient_init :: "env \<Rightarrow> AIClient" where
  "AIClient_init e =
     (let ps = initialize_providers e
      in \<lparr>providers = ps,
          genai_api_key = (if truthy (e ''GEMINI_API_KEY'') then e ''GEMINI_API_KEY'' else None)\<rparr>)"

definition get_available_providers :: "AIClient \<Rightarrow> string list" where
  "get_available_providers c = map fst (filter (\<lambda>(n, config). enabled config) (providers c))"

text \<open>
  The request block shared by the three HTTP adapters of both files:
  \<^verbatim>\<open>try: requests.post(providers[k]["api_url"], headers=providers[k]["headers"], ...)\<close>,
  the status check and the extraction, with \<^verbatim>\<open>except Exception as e\<close> turning any failure,
  a missing key included, into the error string. It returns the adapter's text and the
  calls made.
\<close>

definition key_error :: "string \<Rightarrow> string" where
  "key_error k = apostrophe @ k @ apostrophe"

definition post_json ::
  "(string \<times> 'a ProviderBase_scheme) list \<Rightarrow> transport \<Rightarrow> string \<Rightarrow> string \<Rightarrow> payload
     \<Rightarrow> nat option \<Rightarrow> string \<times> net_call list" where
  "post_json ps net k display body tmo =
     (case map_of ps k of
        None \<Rightarrow> (''Error calling '' @ display @ '' API: '' @ key_error k, [])
      | Some config \<Rightarrow>
          (case api_url config of
             None \<Rightarrow> (''Error calling '' @ display @ '' API: '' @ key_error ''api_url'', [])
           | Some url \<Rightarrow>
               (let call = HttpPost url (headers config) body tmo
                in (case net call of
                      Inl err \<Rightarrow> ''Error calling '' @ display @ '' API: '' @ err
                    | Inr text \<Rightarrow> text, [call]))))"

definition chat_messages :: "string \<Rightarrow> string \<Rightarrow> (string \<times> string) list" where
  "chat_messages query context =
     [(''system'', preamble)]
     @ (if context \<noteq> [] then [(''system'', ''Context from previous conversation: '' @ context)]
        else [])
     @ [(''user'', query)]"

definition query_deepseek :: "AIClient \<Rightarrow> transport \<Rightarrow> string \<Rightarrow> string \<Rightarrow> string \<times> net_call list" where
  "query_deepseek c net query context =
     post_json (providers c) net ''deepseek'' ''DeepSeek''
       (ChatPayload ''deepseek-chat'' (chat_messages query context) 2000) (Some 30)"

definition query_openai :: "AIClient \<Rightarrow> transport \<Rightarrow> string \<Rightarrow> string \<Rightarrow> string \<times> net_call list" where
  "query_openai c net query context =
     post_json (providers c) net ''openai'' ''OpenAI''
       (ChatPayload ''gpt-3.5-turbo'' (chat_messages query context) 2000) (Some 30)"

definition query_anthropic :: "AIClient \<Rightarrow> transport \<Rightarrow> string \<Rightarrow> string \<Rightarrow> string \<times> net_call list" where
  "query_anthropic c net query context =
     (let system_message =
            preamble @ (if context \<noteq> []
                        then nl @ nl @ ''Context from previous conversation: '' @ context else [])
      in post_json (providers c) net ''anthropic'' ''Anthropic''
           (MessagesPayload ''claude-3-sonnet-20240229'' 2000 system_message [(''user'', query)])
           (Some 30))"

definition query_gemini :: "AIClient \<Rightarrow> transport \<Rightarrow> string \<Rightarrow> string \<Rightarrow> string \<times> net_call list" where
  "query_gemini c net query context =
     (let prompt =
            preamble
            @ (if context \<noteq> []
               then nl @ nl @ ''Context from previous conversation: '' @ context else [])
            @ nl @ nl @ ''User query: '' @ query;
          call = GenaiGenerate ''gemini-2.0-flash'' prompt
      in (case net call of
            Inl err \<Rightarrow> ''Error calling Gemini API: '' @ err
          | Inr text \<Rightarrow> text, [call]))"

definition query_huggingface :: "AIClient \<Rightarrow> transport \<Rightarrow> string \<Rightarrow> string \<Rightarrow> string \<times> net_call list" where
  "query_huggingface c net query context =
     (case map_of (providers c) ''huggingface'' of
        None \<Rightarrow> (''Error calling Hugging Face API: '' @ key_error ''huggingface'', [])
      | Some config \<Rightarrow>
          (let prompt =
                 ''<s>[INST] '' @ preamble
                 @ (if context \<noteq> []
                    then nl @ nl @ ''Context from previous conversation: '' @ context else [])
                 @ nl @ nl @ ''User query: '' @ query @ '' [/INST]'';
               call = HFTextGeneration ''mistralai/Mixtral-8x7B-Instruct-v0.1''
                        (api_key config) prompt 2000
           in (case net call of
                 Inl err \<Rightarrow> ''Error calling Hugging Face API: '' @ err
               | Inr text \<Rightarrow> text, [call])))"

text \<open>\<open>query\<close> returns the answer text and the calls that left the process.\<close>

definition query :: "AIClient \<Rightarrow> transport \<Rightarrow> string \<Rightarrow> string \<Rightarrow> string \<Rightarrow> string \<times> net_call list" where
  "query c net provider q context =
     (if provider \<notin> set (get_available_providers c)
      then (''Provider '' @ apostrophe @ provider @ apostrophe @ '' is not available.'', [])
      else if provider = ''deepseek'' then query_deepseek c net q context
      else if provider = ''openai'' then query_openai c net q context
      else if provider = ''anthropic'' then query_anthropic c net q context
      else if provider = ''gemini'' then query_gemini c net q context
      else if provider = ''huggingface'' then query_huggingface c net q context
      else (''Unknown provider: '' @ provider, []))"

section \<open>research\_assistant.py\<close>

text \<open>Exceptions that leave a function. \<open>SystemExit\<close> carries the exit status and the
  line printed just before \<^verbatim>\<open>sys.exit\<close>.\<close>

datatype py_exn =
    ValueError string
  | KeyError string
  | SystemExit int string

record ResearchAssistant =
  ra_providers :: "(string \<times> ProviderBase) list"
  default_provider :: string
  available_providers :: "string list"

definition ra_provider_table :: "env \<Rightarrow> (string \<times> ProviderBase) list" where
  "ra_provider_table e =
     [(''deepseek'',
        \<lparr>name = ''DeepSeek'', api_key = e ''DEEPSEEK_API_KEY'',
         api_url = Some ''https://api.deepseek.com/v1/chat/completions'',
         headers = bearer_headers (e ''DEEPSEEK_API_KEY'')\<rparr>),
      (''openai'',
        \<lparr>name = ''OpenAI'', api_key = e ''OPENAI_API_KEY'',
         api_url = Some ''https://api.openai.com/v1/chat/completions'',
         headers = bearer_headers (e ''OPENAI_API_KEY'')\<rparr>),
      (''anthropic'',
        \<lparr>name = ''Anthropic'', api_key = e ''ANTHROPIC_API_KEY'',
         api_url = Some ''https://api.anthropic.com/v1/messages'',
         headers = anthropic_headers (e ''ANTHROPIC_API_KEY'')\<rparr>)]"

definition check_available_providers :: "(string \<times> ProviderBase) list \<Rightarrow> string list" where
  "check_available_providers ps =
     map fst (filter (\<lambda>(provider, config).
                        truthy (api_key config) \<and> api_key config \<noteq> Some ''your_api_key_here'') ps)"

definition ResearchAssistant_init :: "env \<Rightarrow> string \<Rightarrow> py_exn + ResearchAssistant" where
  "ResearchAssistant_init e dflt =
     (let ps = ra_provider_table e;
          available = check_available_providers ps
      in if available = []
         then Inl (ValueError ''No AI providers configured. Please check your API keys.'')
         else Inr \<lparr>ra_providers = ps, default_provider = dflt,
                   available_providers = available\<rparr>)"

definition call_deepseek :: "ResearchAssistant \<Rightarrow> transport \<Rightarrow> string \<Rightarrow> string \<times> net_call list" where
  "call_deepseek ra net q =
     post_json (ra_providers ra) net ''deepseek'' ''DeepSeek''
       (ChatPayload ''deepseek-chat'' [(''system'', preamble), (''user'', q)] 2000) None"

definition call_openai :: "ResearchAssistant \<Rightarrow> transport \<Rightarrow> string \<Rightarrow> string \<times> net_call list" where
  "call_openai ra net q =
     post_json (ra_providers ra) net ''openai'' ''OpenAI''
       (ChatPayload ''gpt-3.5-turbo'' [(''system'', preamble), (''user'', q)] 2000) None"

definition call_anthropic :: "ResearchAssistant \<Rightarrow> transport \<Rightarrow> string \<Rightarrow> string \<times> net_call list" where
  "call_anthropic ra net q =
     post_json (ra_providers ra) net ''anthropic'' ''Anthropic''
       (MessagesPayload ''claude-3-sonnet-20240229'' 2000 preamble [(''user'', q)]) None"

text \<open>\<open>research\<close> returns the answer, the line it printed (if any) and the calls made;
  the lookup of the provider's display name for that line raises \<^verbatim>\<open>KeyError\<close> when the
  provider has no entry.\<close>

definition research ::
  "ResearchAssistant \<Rightarrow> transport \<Rightarrow> string \<Rightarrow> string option
     \<Rightarrow> py_exn + (string \<times> string list \<times> net_call list)" where
  "research ra net q provider_arg =
     (let provider = (if \<not> truthy provider_arg then default_provider ra else the provider_arg)
      in if provider \<notin> set (available_providers ra)
         then Inr (''Provider '' @ apostrophe @ provider @ apostrophe
                     @ '' is not available. Available providers: ''
                     @ join '', '' (available_providers ra), [], [])
         else
           (case map_of (ra_providers ra) provider of
              None \<Rightarrow> Inl (KeyError provider)
            | Some config \<Rightarrow>
                (let out = [''Researching with '' @ name config @ ''...''];
                     (text, calls) =
                       (if provider = ''deepseek'' then call_deepseek ra net q
                        else if provider = ''openai'' then call_openai ra net q
                        else if provider = ''anthropic'' then call_anthropic ra net q
                        else (''Unknown provider: '' @ provider, []))
                 in Inr (text, out, calls))))"

section \<open>app-terminal.py\<close>

text \<open>The constructor of the terminal front end, up to the welcome banner. The session id
  is the UUID the constructor draws.\<close>

record Terminal =
  t_ai_client :: AIClient
  t_web_search :: WebSearchClient
  t_memory_manager :: MemoryManager
  current_provider :: string
  use_web_search :: bool
  t_session_id :: string

definition TerminalResearchAssistant_init ::
  "env \<Rightarrow> string \<Rightarrow> bool \<Rightarrow> string \<Rightarrow> py_exn + Terminal" where
  "TerminalResearchAssistant_init e dflt web uuid =
     (let c = AIClient_init e;
          ws = WebSearchClient_init e;
          mm = MemoryManager_default;
          available = get_available_providers c
      in if dflt \<in> set available
         then Inr \<lparr>t_ai_client = c, t_web_search = ws, t_memory_manager = mm,
                   current_provider = dflt, use_web_search = (web \<and> is_available ws),
                   t_session_id = uuid\<rparr>
         else (case available of
                 p # _ \<Rightarrow>
                   Inr \<lparr>t_ai_client = c, t_web_search = ws, t_memory_manager = mm,
                        current_provider = p, use_web_search = (web \<and> is_available ws),
                        t_session_id = uuid\<rparr>
               | [] \<Rightarrow>
                   Inl (SystemExit 1
                     ''Error: No AI providers configured. Please check your API keys.'')))"

section \<open>app.py\<close>

text \<open>The components the web application builds when the module is loaded. Nothing in
  that code raises on an empty provider set.\<close>

record App =
  ai_client :: AIClient
  web_search :: WebSearchClient
  memory_manager :: MemoryManager

definition app_init :: "env \<Rightarrow> py_exn + App" where
  "app_init e =
     Inr \<lparr>ai_client = AIClient_init e, web_search = WebSearchClient_init e,
          memory_manager = MemoryManager_default\<rparr>"

text \<open>The JSON body of a request: each key may be missing.\<close>

record research_request =
  req_query :: "string option"
  req_provider :: "string option"
  req_web_search :: "bool option"
  req_session_id :: "string option"

record research_reply =
  response :: string
  search_results :: "SearchResult list"
  session_id :: string

text \<open>One run of the handler: the reply, the application afterwards, the lines printed,
  the arguments \<open>(provider, query, context)\<close> with which the handler called
  \<^verbatim>\<open>ai_client.query\<close>, and the calls that left the process.\<close>

record research_run =
  reply :: research_reply
  app_after :: App
  printed :: "string list"
  adapter_call :: "string \<times> string \<times> string"
  provider_calls :: "net_call list"

definition render_result :: "SearchResult \<Rightarrow> string" where
  "render_result r = ''Source: '' @ py_str (title r) @ nl @ ''Content: '' @ py_str (snippet r)"

text \<open>The four \<^verbatim>\<open>data.get(key, default)\<close> reads at the head of the handler.\<close>

definition request_query :: "research_request \<Rightarrow> string" where
  "request_query data = (case req_query data of None \<Rightarrow> [] | Some q \<Rightarrow> q)"

definition request_provider :: "App \<Rightarrow> research_request \<Rightarrow> string" where
  "request_provider app data =
     (case req_provider data of
        Some p \<Rightarrow> p
      | None \<Rightarrow>
          (case get_available_providers (ai_client app) of
             p # _ \<Rightarrow> p | [] \<Rightarrow> ''deepseek''))"

definition request_web_search :: "research_request \<Rightarrow> bool" where
  "request_web_search data = (case req_web_search data of None \<Rightarrow> False | Some b \<Rightarrow> b)"

definition request_session_id :: "string \<Rightarrow> research_request \<Rightarrow> string" where
  "request_session_id uuid data = (case req_session_id data of None \<Rightarrow> uuid | Some s \<Rightarrow> s)"

definition api_research ::
  "App \<Rightarrow> env \<Rightarrow> serpapi_service \<Rightarrow> pse_service \<Rightarrow> transport \<Rightarrow> string \<Rightarrow> research_request
     \<Rightarrow> research_run" where
  "api_research app e serpapi pse net uuid data =
     (let query0 = request_query data;
          provider = request_provider app data;
          web = request_web_search data;
          sid = request_session_id uuid data;
          (context, mm1) = get_context (memory_manager app) sid;
          (results, out) =
            (if web \<and> is_available (web_search app)
             then search (web_search app) e serpapi pse query0 ''auto''
             else ([], []));
          query1 =
            (if results \<noteq> []
             then (let search_context = join nl (map render_result results)
                   in query0 @ nl @ nl @ ''Here are some web search results for context:''
                        @ nl @ search_context)
             else query0);
          (resp, calls) = query (ai_client app) net provider query1 context;
          mm2 = add_exchange mm1 sid query1 resp
      in \<lparr>reply = \<lparr>response = resp, search_results = results, session_id = sid\<rparr>,
          app_after = app\<lparr>memory_manager := mm2\<rparr>,
          printed = out,
          adapter_call = (provider, query1, context),
          provider_calls = calls\<rparr>)"

section \<open>Example inputs\<close>

text \<open>Environments, backends and a transport used to evaluate the definitions.\<close>

definition no_keys_env :: env where
  "no_keys_env = Map.empty"

definition deepseek_only_env :: env where
  "deepseek_only_env = [''DEEPSEEK_API_KEY'' \<mapsto> ''sk-1'']"

definition placeholder_env :: env where
  "placeholder_env = [''DEEPSEEK_API_KEY'' \<mapsto> ''your_api_key_here'']"

definition search_env :: env where
  "search_env = [''DEEPSEEK_API_KEY'' \<mapsto> ''sk-1'', ''SERPAPI_API_KEY'' \<mapsto> ''serp-1'',
                 ''GOOGLE_PSE_ID'' \<mapsto> ''cx-1'', ''GOOGLE_API_KEY'' \<mapsto> ''g-1'']"

definition fixed_transport :: transport where
  "fixed_transport call = Inr ''an answer''"

definition raw_a :: raw_result where
  "raw_a = [''title'' \<mapsto> ''A'', ''link'' \<mapsto> ''http://a'', ''snippet'' \<mapsto> ''sa'']"

definition raw_b :: raw_result where
  "raw_b = [''title'' \<mapsto> ''B'', ''link'' \<mapsto> ''http://b'', ''snippet'' \<mapsto> ''sb'']"

definition serpapi_two :: serpapi_service where
  "serpapi_two p = Inr (Some [raw_a, raw_b])"


definition serpapi_down :: serpapi_service where
  "serpapi_down p = Inl ''connection refused''"

definition serpapi_empty :: serpapi_service where
  "serpapi_empty p = Inr (Some [])"



definition pse_one :: pse_service where
  "pse_one p = Inr (Some [raw_b])"

definition pse_down :: pse_service where
  "pse_down p = Inl ''quota exceeded''"

text \<open>The web application as it starts under \<open>search_env\<close>, and a request that asks for
  web search.\<close>

definition search_app :: App where
  "search_app =
     \<lparr>ai_client = AIClient_init search_env, web_search = WebSearchClient_init search_env,
      memory_manager = MemoryManager_default\<rparr>"

definition search_request :: research_request where
  "search_request =
     \<lparr>req_query = Some ''what?'', req_provider = Some ''deepseek'',
      req_web_search = Some True, req_session_id = Some ''s1''\<rparr>"

section \<open>Session memory\<close>

subsection \<open>Slices and the stored history\<close>

lemma py_slice_from_neg:
  "0 < n \<Longrightarrow> py_slice_from (- n) xs = drop (length xs - nat n) xs"
  by (auto simp: py_slice_from_def Let_def max_def intro!: arg_cong2[where f = drop])

lemma py_slice_from_zero: "py_slice_from 0 xs = xs"
  by (simp add: py_slice_from_def)

lemma max_history_add_exchange [simp]: "max_history (add_exchange mm s q r) = max_history mm"
  by (simp add: add_exchange_def Let_def)

lemma max_history_clear_session [simp]: "max_history (clear_session mm s) = max_history mm"
  by (simp add: clear_session_def)

lemma snd_get_context [simp]: "snd (get_context mm s) = mm"
  by (simp add: get_context_def Let_def split: option.split)

lemma max_history_apply_op [simp]: "max_history (apply_op mm x) = max_history mm"
  by (cases x) simp_all

lemma max_history_run_ops [simp]: "max_history (run_ops mm ops) = max_history mm"
  unfolding run_ops_def by (induction ops arbitrary: mm) simp_all

lemma history_add_exchange_other:
  "s' \<noteq> s \<Longrightarrow> conversation_history (add_exchange mm s q r) s' = conversation_history mm s'"
  by (simp add: add_exchange_def Let_def)

lemma history_clear_session_other:
  "s' \<noteq> s \<Longrightarrow> conversation_history (clear_session mm s) s' = conversation_history mm s'"
  by (simp add: clear_session_def)

lemma history_clear_session_same: "conversation_history (clear_session mm s) s = None"
  by (simp add: clear_session_def)

lemma history_add_exchange_same:
  "0 < max_history mm \<Longrightarrow>
   conversation_history (add_exchange mm s q r) s =
     Some (drop (Suc (length (stored mm s)) - nat (max_history mm)) (stored mm s @ [(q, r)]))"
  by (auto simp: add_exchange_def Let_def stored_def py_slice_from_neg split: option.split)

lemma stored_add_exchange:
  "0 < max_history mm \<Longrightarrow>
   stored (add_exchange mm s q r) s =
     drop (Suc (length (stored mm s)) - nat (max_history mm)) (stored mm s @ [(q, r)])"
  by (simp add: stored_def[of "add_exchange mm s q r"] history_add_exchange_same)

subsection \<open>The bound for a positive maximum\<close>

text \<open>
  With \<open>max_history \<ge> 1\<close> the slice \<^verbatim>\<open>history[-max_history:]\<close> keeps the last
  \<open>max_history\<close> entries, so every operation preserves the bound and the stored history
  is the tail of everything appended.
\<close>

lemma add_exchange_bounded:
  assumes "0 < max_history mm" "bounded mm"
  shows "bounded (add_exchange mm s q r)"
  unfolding bounded_def
proof (intro allI impI)
  fix s' h
  assume h: "conversation_history (add_exchange mm s q r) s' = Some h"
  show "int (length h) \<le> max_history (add_exchange mm s q r)"
  proof (cases "s' = s")
    case True
    with h assms(1) show ?thesis
      by (auto simp: history_add_exchange_same)
  next
    case False
    with h assms(2) show ?thesis
      by (simp add: history_add_exchange_other bounded_def)
  qed
qed

lemma clear_session_bounded: "bounded mm \<Longrightarrow> bounded (clear_session mm s)"
  by (auto simp: bounded_def clear_session_def split: if_splits)

lemma init_bounded: "bounded (MemoryManager_init n)"
  by (simp add: bounded_def MemoryManager_init_def)

lemma apply_op_bounded: "0 < max_history mm \<Longrightarrow> bounded mm \<Longrightarrow> bounded (apply_op mm x)"
  by (cases x) (simp_all add: add_exchange_bounded clear_session_bounded)

lemma run_ops_bounded:
  "0 < max_history mm \<Longrightarrow> bounded mm \<Longrightarrow> bounded (run_ops mm ops)"
  unfolding run_ops_def
  by (induction ops arbitrary: mm) (simp_all add: apply_op_bounded)

lemma run_ops_init_bounded: "0 < n \<Longrightarrow> bounded (run_ops (MemoryManager_init n) ops)"
  by (rule run_ops_bounded) (simp_all add: init_bounded, simp add: MemoryManager_init_def)

lemma drop_last_snoc:
  assumes "0 < n"
  shows "drop (Suc (length (drop (length xs - n) xs)) - n) (drop (length xs - n) xs @ [y])
         = drop (Suc (length xs) - n) (xs @ [y])"
proof (cases "length xs < n")
  case True
  then show ?thesis by simp
next
  case False
  then have le: "n \<le> length xs" by simp
  with assms have "Suc (length (drop (length xs - n) xs)) - n = 1" by simp
  moreover from le assms have "Suc (length xs) - n = Suc (length xs - n)" by simp
  ultimately show ?thesis using le assms by (simp add: drop_Suc[symmetric] Suc_diff_le)
qed

lemma add_all_snoc:
  "add_all mm s (es @ [e]) = add_exchange (add_all mm s es) s (fst e) (snd e)"
  by (simp add: add_all_def)

lemma max_history_add_all [simp]: "max_history (add_all mm s es) = max_history mm"
  by (induction es rule: rev_induct) (simp_all add: add_all_snoc, simp add: add_all_def)

lemma stored_add_all:
  assumes "0 < max_history mm" "es \<noteq> []"
  shows "stored (add_all mm s es) s =
           drop (length (stored mm s @ es) - nat (max_history mm)) (stored mm s @ es)"
  using assms(2)
proof (induction es rule: rev_induct)
  case Nil
  then show ?case by simp
next
  case (snoc e es)
  obtain q r where e: "e = (q, r)" by (cases e)
  let ?n = "nat (max_history mm)"
  from assms(1) have n: "0 < ?n" by simp
  show ?case
  proof (cases "es = []")
    case True
    have "add_all mm s (es @ [e]) = add_exchange mm s q r"
      using True by (simp add: add_all_def e)
    then show ?thesis
      using stored_add_exchange[OF assms(1), of s q r] True by (simp add: e)
  next
    case False
    with snoc have ih: "stored (add_all mm s es) s =
        drop (length (stored mm s @ es) - ?n) (stored mm s @ es)" by simp
    have "stored (add_all mm s (es @ [e])) s =
        drop (Suc (length (stored (add_all mm s es) s)) - ?n) (stored (add_all mm s es) s @ [(q, r)])"
      using assms(1) by (simp add: add_all_snoc e stored_add_exchange)
    also have "\<dots> = drop (Suc (length (stored mm s @ es)) - ?n) ((stored mm s @ es) @ [(q, r)])"
      unfolding ih by (rule drop_last_snoc[OF n])
    finally show ?thesis by (simp add: e)
  qed
qed

lemma history_add_all_Some:
  "es \<noteq> [] \<Longrightarrow> conversation_history (add_all mm s es) s = Some (stored (add_all mm s es) s)"
  by (induction es rule: rev_induct) (auto simp: add_all_snoc stored_def add_exchange_def Let_def)

lemma add_all_keeps_last:
  assumes "0 < n" "length es = nat n + k" "0 < k"
  shows "conversation_history (add_all (MemoryManager_init n) s es) s = Some (drop k es)"
proof -
  let ?mm = "MemoryManager_init n"
  have mh: "max_history ?mm = n" by (simp add: MemoryManager_init_def)
  have st0: "stored ?mm s = []" by (simp add: stored_def MemoryManager_init_def)
  from assms have ne: "es \<noteq> []" by auto
  have "stored (add_all ?mm s es) s = drop k es"
    using stored_add_all[of ?mm es s] assms ne by (simp add: mh st0)
  with history_add_all_Some[OF ne, of ?mm s] show ?thesis by simp
qed

lemma get_context_unseen:
  "conversation_history mm s = None \<Longrightarrow> fst (get_context mm s) = []"
  by (simp add: get_context_def)

lemma get_context_seen:
  "0 < max_history mm \<Longrightarrow> conversation_history mm s = Some h \<Longrightarrow>
   fst (get_context mm s) = join nl (map render_exchange (drop (length h - nat (max_history mm)) h))"
  by (simp add: get_context_def Let_def py_slice_from_neg)

lemma get_context_add_all:
  assumes "0 < n" "length es = nat n + k" "0 < k"
  shows "fst (get_context (add_all (MemoryManager_init n) s es) s)
           = join nl (map render_exchange (drop k es))"
proof -
  let ?mm = "add_all (MemoryManager_init n) s es"
  have mh: "max_history ?mm = n" by (simp add: MemoryManager_init_def)
  have pos: "0 < max_history ?mm" using assms(1) by (simp add: MemoryManager_init_def)
  have len: "length (drop k es) - nat n = 0" using assms by simp
  have "fst (get_context ?mm s)
          = join nl (map render_exchange (drop (length (drop k es) - nat n) (drop k es)))"
    using get_context_seen[OF pos add_all_keeps_last[OF assms]] by (simp only: mh)
  then show ?thesis by (simp only: len drop_0)
qed

lemma get_context_scenario_max2:
  "fst (get_context (add_all (MemoryManager_init 2) ''s1''
          [(''q1'', ''r1''), (''q2'', ''r2''), (''q3'', ''r3'')]) ''s1'')
     = ''Q: q2\<newline>A: r2\<newline>Q: q3\<newline>A: r3''"
  by (simp add: add_all_def add_exchange_def get_context_def MemoryManager_init_def Let_def
      py_slice_from_def render_exchange_def)

subsection \<open>A maximum of zero\<close>

text \<open>
  Claim C1: with \<open>max_history_per_session = N\<close> every session's list has at most \<open>N\<close>
  exchanges after every \<open>add_exchange\<close>, the oldest being dropped so that the most recent
  \<open>N\<close> remain. For \<open>N \<ge> 1\<close> this is \<open>run_ops_init_bounded\<close> and \<open>add_all_keeps_last\<close>
  above. For \<open>N = 0\<close> the trim is reached (the length 1 exceeds 0) but
  \<^verbatim>\<open>history[-0:]\<close> is the whole list: after three appends the session holds all three
  exchanges, with a maximum of zero.
\<close>

theorem add_exchange_max_zero_keeps_everything:
  "max_history (add_all (MemoryManager_init 0) ''s1''
      [(''q1'', ''r1''), (''q2'', ''r2''), (''q3'', ''r3'')]) = 0
   \<and> conversation_history (add_all (MemoryManager_init 0) ''s1''
      [(''q1'', ''r1''), (''q2'', ''r2''), (''q3'', ''r3'')]) ''s1''
     = Some [(''q1'', ''r1''), (''q2'', ''r2''), (''q3'', ''r3'')]"
  by (simp add: add_all_def add_exchange_def MemoryManager_init_def Let_def py_slice_from_def)

text \<open>
  Claim C2: \<open>get_context\<close> is empty for a session never seen, and after \<open>N + k\<close> appends
  (\<open>k > 0\<close>) it renders exactly the last \<open>N\<close> exchanges, oldest first, as
  \<^verbatim>\<open>Q: <query>\nA: <response>\<close> joined by single newlines. The first half is
  \<open>get_context_unseen\<close>; for \<open>N \<ge> 1\<close> the second half is \<open>get_context_add_all\<close>. For
  \<open>N = 0\<close> and one append the last zero exchanges render as the empty string, but the
  code returns the exchange that was appended.
\<close>

theorem get_context_max_zero_returns_everything:
  "fst (get_context (add_exchange (MemoryManager_init 0) ''s1'' ''q1'' ''r1'') ''s1'')
     = ''Q: q1\<newline>A: r1''"
  by (simp add: add_exchange_def get_context_def MemoryManager_init_def Let_def
      py_slice_from_def render_exchange_def)

subsection \<open>Sessions do not interfere\<close>

lemma history_apply_op_other:
  "session_of x \<noteq> a \<Longrightarrow> conversation_history (apply_op mm x) a = conversation_history mm a"
  by (cases x) (simp_all add: history_add_exchange_other history_clear_session_other)

lemma history_apply_op_agree:
  assumes "max_history m1 = max_history m2" "conversation_history m1 a = conversation_history m2 a"
  shows "conversation_history (apply_op m1 x) a = conversation_history (apply_op m2 x) a"
proof (cases "session_of x = a")
  case False
  with assms show ?thesis by (simp add: history_apply_op_other)
next
  case True
  with assms show ?thesis
    by (cases x) (auto simp: add_exchange_def clear_session_def Let_def)
qed

text \<open>Running a sequence changes the history of session \<open>a\<close> exactly as running only its
  operations on \<open>a\<close> does, from any manager that agrees on \<open>a\<close>.\<close>

lemma run_ops_filter_agree:
  assumes "max_history m1 = max_history m2" "conversation_history m1 a = conversation_history m2 a"
  shows "conversation_history (run_ops m1 ops) a
           = conversation_history (run_ops m2 (filter (\<lambda>x. session_of x = a) ops)) a"
  using assms unfolding run_ops_def
proof (induction ops arbitrary: m1 m2)
  case Nil
  then show ?case by simp
next
  case (Cons x ops)
  show ?case
  proof (cases "session_of x = a")
    case True
    have "conversation_history (apply_op m1 x) a = conversation_history (apply_op m2 x) a"
      using Cons.prems by (rule history_apply_op_agree)
    moreover have "max_history (apply_op m1 x) = max_history (apply_op m2 x)"
      using Cons.prems by simp
    ultimately show ?thesis using True Cons.IH[of "apply_op m1 x" "apply_op m2 x"] by simp
  next
    case False
    then have "conversation_history (apply_op m1 x) a = conversation_history m2 a"
      using Cons.prems by (simp add: history_apply_op_other)
    moreover have "max_history (apply_op m1 x) = max_history m2"
      using Cons.prems by simp
    ultimately show ?thesis using False Cons.IH[of "apply_op m1 x" m2] by simp
  qed
qed

lemma get_context_cong:
  "max_history m1 = max_history m2 \<Longrightarrow> conversation_history m1 a = conversation_history m2 a
   \<Longrightarrow> fst (get_context m1 a) = fst (get_context m2 a)"
  by (simp add: get_context_def Let_def split: option.split)

text \<open>
  Claim C5: the context of session \<open>a\<close> depends only on the operations on \<open>a\<close>. Two runs,
  started from managers with the same maximum and the same history for \<open>a\<close>, whose
  operation sequences have the same operations on \<open>a\<close> in the same order (and differ
  arbitrarily in their operations on other sessions), return the same
  \<open>get_context a\<close>.
\<close>

theorem no_cross_session_leakage:
  assumes "max_history m1 = max_history m2"
      and "conversation_history m1 a = conversation_history m2 a"
      and "filter (\<lambda>x. session_of x = a) ops1 = filter (\<lambda>x. session_of x = a) ops2"
  shows "fst (get_context (run_ops m1 ops1) a) = fst (get_context (run_ops m2 ops2) a)"
proof -
  have "conversation_history (run_ops m1 ops1) a
          = conversation_history (run_ops m2 (filter (\<lambda>x. session_of x = a) ops1)) a"
    using assms(1,2) by (rule run_ops_filter_agree)
  also have "\<dots> = conversation_history (run_ops m2 ops2) a"
    unfolding assms(3) by (rule run_ops_filter_agree[symmetric]) simp_all
  finally show ?thesis using assms(1) by (intro get_context_cong) simp_all
qed

theorem no_cross_session_leakage_witness:
  "max_history (MemoryManager_init 2) = max_history (MemoryManager_init 2)
   \<and> conversation_history (MemoryManager_init 2) ''A'' = conversation_history (MemoryManager_init 2) ''A''
   \<and> filter (\<lambda>x. session_of x = ''A'')
        [AddExchange ''A'' ''q1'' ''r1'', AddExchange ''B'' ''secret'' ''hidden'',
         ClearSession ''B'', AddExchange ''A'' ''q2'' ''r2'', AddExchange ''B'' ''x'' ''y'']
      = filter (\<lambda>x. session_of x = ''A'')
        [AddExchange ''A'' ''q1'' ''r1'', AddExchange ''A'' ''q2'' ''r2'']
   \<and> fst (get_context (run_ops (MemoryManager_init 2)
        [AddExchange ''A'' ''q1'' ''r1'', AddExchange ''B'' ''secret'' ''hidden'',
         ClearSession ''B'', AddExchange ''A'' ''q2'' ''r2'', AddExchange ''B'' ''x'' ''y'']) ''A'')
      = fst (get_context (run_ops (MemoryManager_init 2)
        [AddExchange ''A'' ''q1'' ''r1'', AddExchange ''A'' ''q2'' ''r2'']) ''A'')"
  using no_cross_session_leakage [of "MemoryManager_init 2" "MemoryManager_init 2" "''A''"
      "[AddExchange ''A'' ''q1'' ''r1'', AddExchange ''B'' ''secret'' ''hidden'',
        ClearSession ''B'', AddExchange ''A'' ''q2'' ''r2'', AddExchange ''B'' ''x'' ''y'']"
      "[AddExchange ''A'' ''q1'' ''r1'', AddExchange ''A'' ''q2'' ''r2'']"]
  by simp

subsection \<open>Reading the context changes nothing\<close>

text \<open>
  Claim C10: \<open>get_context\<close> leaves the manager as it found it, for a known and for an
  unknown session; for a session never seen the call creates no entry, and a later
  \<open>get_context\<close> for it is again the empty string.
\<close>

theorem get_context_pure_read:
  "snd (get_context mm s) = mm
   \<and> (conversation_history mm s = None \<longrightarrow>
        s \<notin> dom (conversation_history (snd (get_context mm s)))
        \<and> fst (get_context mm s) = []
        \<and> fst (get_context (snd (get_context mm s)) s) = [])"
  by (auto simp: get_context_def Let_def split: option.split)

theorem get_context_pure_read_witness:
  "snd (get_context (add_exchange MemoryManager_default ''s1'' ''q'' ''r'') ''s2'')
     = add_exchange MemoryManager_default ''s1'' ''q'' ''r''
   \<and> conversation_history (add_exchange MemoryManager_default ''s1'' ''q'' ''r'') ''s2'' = None
   \<and> ''s2'' \<notin> dom (conversation_history
                    (snd (get_context (add_exchange MemoryManager_default ''s1'' ''q'' ''r'') ''s2'')))
   \<and> fst (get_context (add_exchange MemoryManager_default ''s1'' ''q'' ''r'') ''s2'') = []
   \<and> fst (get_context
            (snd (get_context (add_exchange MemoryManager_default ''s1'' ''q'' ''r'') ''s2''))
            ''s2'') = []"
proof -
  have unseen: "conversation_history (add_exchange MemoryManager_default ''s1'' ''q'' ''r'') ''s2'' = None"
    by (simp add: add_exchange_def MemoryManager_default_def MemoryManager_init_def Let_def)
  show ?thesis
    using get_context_pure_read [of "add_exchange MemoryManager_default ''s1'' ''q'' ''r''" "''s2''"]
      unseen
    by blast
qed

section \<open>Web search\<close>

lemma search_env_client:
  "WebSearchClient_init search_env = \<lparr>serpapi_enabled = True, google_pse_enabled = True\<rparr>"
  by (simp add: WebSearchClient_init_def search_env_def truthy_def)

lemma search_serpapi_raises:
  "serpapi (serpapi_request e q) = Inl err
   \<Longrightarrow> search_serpapi e serpapi q = ([], [''SerpAPI search error: '' @ err])"
  by (simp add: search_serpapi_def)

lemma search_google_pse_raises:
  "pse (pse_request e q) = Inl err
   \<Longrightarrow> search_google_pse e pse q = ([], [''Google PSE search error: '' @ err])"
  by (simp add: search_google_pse_def)

lemma fst_search_auto:
  "fst (search ws e serpapi pse q ''auto'') =
     (if serpapi_enabled ws \<and> fst (search_serpapi e serpapi q) \<noteq> []
      then fst (search_serpapi e serpapi q)
      else if google_pse_enabled ws then fst (search_google_pse e pse q) else [])"
  by (auto simp: search_def Let_def split: prod.splits)

text \<open>Neither backend function truncates: it returns one result for each raw result.\<close>

lemma length_search_serpapi:
  "length (fst (search_serpapi e serpapi q)) = raw_count (serpapi (serpapi_request e q))"
  by (simp add: search_serpapi_def raw_count_def split: sum.split option.split)

lemma length_search_google_pse:
  "length (fst (search_google_pse e pse q)) = raw_count (pse (pse_request e q))"
  by (simp add: search_google_pse_def raw_count_def split: sum.split option.split)





lemma raw_count_raw_results: "raw_count answer = length (raw_results answer)"
  by (simp add: raw_count_def raw_results_def split: sum.split option.split)




text \<open>
  Claim C7: in \<open>auto\<close> mode the SerpAPI results are returned when SerpAPI is enabled and
  yields any; otherwise the Google PSE results are, when that backend is enabled. A
  backend call that raises is caught inside the backend function, which prints one line
  and returns no results, so the fallback runs as for an empty answer. When neither
  backend yields a result, \<open>search\<close> returns the empty list. \<open>search\<close> has no failure
  value: every call returns a list.
\<close>

theorem search_auto_falls_back:
  "fst (search ws e serpapi pse q ''auto'') =
     (if serpapi_enabled ws \<and> fst (search_serpapi e serpapi q) \<noteq> []
      then fst (search_serpapi e serpapi q)
      else if google_pse_enabled ws then fst (search_google_pse e pse q) else [])
   \<and> (serpapi (serpapi_request e q) = Inl err \<longrightarrow>
        search_serpapi e serpapi q = ([], [''SerpAPI search error: '' @ err]))
   \<and> (pse (pse_request e q) = Inl err' \<longrightarrow>
        search_google_pse e pse q = ([], [''Google PSE search error: '' @ err']))
   \<and> (raw_count (serpapi (serpapi_request e q)) = 0 \<and> raw_count (pse (pse_request e q)) = 0
        \<longrightarrow> fst (search ws e serpapi pse q ''auto'') = [])"
proof -
  have "fst (search ws e serpapi pse q ''auto'') = []"
    if "raw_count (serpapi (serpapi_request e q)) = 0" "raw_count (pse (pse_request e q)) = 0"
  proof -
    from that have "fst (search_serpapi e serpapi q) = []" "fst (search_google_pse e pse q) = []"
      using length_search_serpapi[of e serpapi q] length_search_google_pse[of e pse q] by simp_all
    then show ?thesis by (simp add: fst_search_auto)
  qed
  then show ?thesis
    using fst_search_auto[of ws e serpapi pse q]
    by (simp add: search_serpapi_raises search_google_pse_raises)
qed

theorem search_auto_falls_back_witness:
  "serpapi_down (serpapi_request search_env ''q'') = Inl ''connection refused''
   \<and> search_serpapi search_env serpapi_down ''q''
       = ([], [''SerpAPI search error: connection refused''])
   \<and> search (WebSearchClient_init search_env) search_env serpapi_down pse_one ''q'' ''auto''
       = ([\<lparr>title = Some ''B'', link = Some ''http://b'', snippet = Some ''sb'',
            source = ''Google PSE''\<rparr>],
          [''SerpAPI search error: connection refused''])
   \<and> raw_count (serpapi_down (serpapi_request search_env ''q'')) = 0
   \<and> raw_count (pse_down (pse_request search_env ''q'')) = 0
   \<and> fst (search (WebSearchClient_init search_env) search_env serpapi_down pse_down
             ''q'' ''auto'') = []"
proof -
  have d: "serpapi_down (serpapi_request search_env ''q'') = Inl ''connection refused''"
    by (simp add: serpapi_down_def)
  have d2: "pse_down (pse_request search_env ''q'') = Inl ''quota exceeded''"
    by (simp add: pse_down_def)
  have c1: "raw_count (serpapi_down (serpapi_request search_env ''q'')) = 0"
    by (simp add: raw_count_def serpapi_down_def)
  have c2: "raw_count (pse_down (pse_request search_env ''q'')) = 0"
    by (simp add: raw_count_def pse_down_def)
  have s: "search (WebSearchClient_init search_env) search_env serpapi_down pse_one ''q'' ''auto''
       = ([\<lparr>title = Some ''B'', link = Some ''http://b'', snippet = Some ''sb'',
            source = ''Google PSE''\<rparr>],
          [''SerpAPI search error: connection refused''])"
    by (simp add: search_env_client search_def search_serpapi_def search_google_pse_def
        serpapi_down_def pse_one_def to_result_def raw_b_def Let_def)
  show ?thesis
    using search_auto_falls_back [of "WebSearchClient_init search_env" search_env serpapi_down
        pse_down "''q''" "''connection refused''" "''quota exceeded''"] d d2 c1 c2 s
    by simp
qed

section \<open>Providers\<close>

lemma available_deepseek_only:
  "get_available_providers (AIClient_init deepseek_only_env) = [''deepseek'']"
  by (simp add: get_available_providers_def AIClient_init_def initialize_providers_def
      deepseek_only_env_def truthy_def Let_def)

lemma available_no_keys:
  "get_available_providers (AIClient_init no_keys_env) = []"
  by (simp add: get_available_providers_def AIClient_init_def initialize_providers_def
      no_keys_env_def truthy_def Let_def)

lemma available_placeholder:
  "get_available_providers (AIClient_init placeholder_env) = [''deepseek'']"
  by (simp add: get_available_providers_def AIClient_init_def initialize_providers_def
      placeholder_env_def truthy_def Let_def)

subsection \<open>Dispatch to a provider that is not available\<close>

text \<open>
  Claim C4: for a provider that is not in the list of available providers, \<open>query\<close>
  returns exactly \<^verbatim>\<open>Provider '<id>' is not available.\<close> and makes no call that leaves the
  process.
\<close>

theorem query_unavailable_provider:
  "provider \<notin> set (get_available_providers c) \<Longrightarrow>
   query c net provider q context =
     (''Provider '' @ apostrophe @ provider @ apostrophe @ '' is not available.'', [])"
  by (simp add: query_def)

theorem query_unavailable_provider_witness:
  "''openai'' \<notin> set (get_available_providers (AIClient_init deepseek_only_env))
   \<and> query (AIClient_init deepseek_only_env) fixed_transport ''openai'' ''hi'' ''Q: a\<newline>A: b''
       = (''Provider 'openai' is not available.'', [])"
proof -
  have h: "''openai'' \<notin> set (get_available_providers (AIClient_init deepseek_only_env))"
    by (simp add: available_deepseek_only)
  show ?thesis
    using query_unavailable_provider [OF h, of fixed_transport "''hi''" "''Q: a\<newline>A: b''"] h
    by simp
qed

text \<open>For comparison, an available provider is called once.\<close>

lemma query_available_deepseek:
  "query (AIClient_init deepseek_only_env) fixed_transport ''deepseek'' ''hi'' [] =
     (''an answer'',
      [HttpPost ''https://api.deepseek.com/v1/chat/completions''
         [(''Authorization'', Some ''Bearer sk-1''), (''Content-Type'', Some ''application/json'')]
         (ChatPayload ''deepseek-chat'' [(''system'', preamble), (''user'', ''hi'')] 2000)
         (Some 30)])"
  by (simp add: query_def get_available_providers_def query_deepseek_def post_json_def
      AIClient_init_def initialize_providers_def deepseek_only_env_def bearer_headers_def
      py_str_def chat_messages_def fixed_transport_def truthy_def Let_def)

text \<open>The command-line variant \<open>research\<close> makes no call either, but its message goes on
  to list the available providers.\<close>

lemma research_unavailable:
  assumes "(if truthy provider_arg then the provider_arg else default_provider ra) = provider"
      and "provider \<notin> set (available_providers ra)"
  shows "research ra net q provider_arg =
     Inr (''Provider '' @ apostrophe @ provider @ apostrophe
            @ '' is not available. Available providers: ''
            @ join '', '' (available_providers ra), [], [])"
  using assms by (auto simp: research_def Let_def)

subsection \<open>Starting without any provider\<close>

text \<open>
  Claim C8, as stated: with no provider credential the system refuses to start. It
  fails for the web application: with an empty environment its components are built, and
  the provider client it holds has no available provider.
\<close>

theorem app_starts_without_providers:
  "app_init no_keys_env =
     Inr \<lparr>ai_client = AIClient_init no_keys_env, web_search = WebSearchClient_init no_keys_env,
          memory_manager = MemoryManager_default\<rparr>
   \<and> get_available_providers (AIClient_init no_keys_env) = []"
  by (simp add: app_init_def available_no_keys)

text \<open>
  Claim C8, amended: when no provider is available, constructing the command-line
  \<open>ResearchAssistant\<close> raises \<^verbatim>\<open>ValueError\<close> with the diagnostic, and constructing the
  terminal front end prints the diagnostic and exits with status 1; with a provider
  available both start. The web application builds its components for every
  environment.
\<close>

theorem startup_without_providers:
  "(check_available_providers (ra_provider_table e) = [] \<longrightarrow>
      ResearchAssistant_init e dflt =
        Inl (ValueError ''No AI providers configured. Please check your API keys.''))
   \<and> (get_available_providers (AIClient_init e) = [] \<longrightarrow>
      TerminalResearchAssistant_init e dflt web uuid =
        Inl (SystemExit 1 ''Error: No AI providers configured. Please check your API keys.''))
   \<and> (check_available_providers (ra_provider_table e) \<noteq> [] \<longrightarrow>
      \<not> isl (ResearchAssistant_init e dflt))
   \<and> (get_available_providers (AIClient_init e) \<noteq> [] \<longrightarrow>
      \<not> isl (TerminalResearchAssistant_init e dflt web uuid))
   \<and> app_init e =
       Inr \<lparr>ai_client = AIClient_init e, web_search = WebSearchClient_init e,
            memory_manager = MemoryManager_default\<rparr>"
  by (auto simp: ResearchAssistant_init_def TerminalResearchAssistant_init_def app_init_def Let_def
      split: list.split)

theorem startup_without_providers_witness:
  "check_available_providers (ra_provider_table no_keys_env) = []
   \<and> ResearchAssistant_init no_keys_env ''deepseek'' =
        Inl (ValueError ''No AI providers configured. Please check your API keys.'')
   \<and> get_available_providers (AIClient_init no_keys_env) = []
   \<and> TerminalResearchAssistant_init no_keys_env ''deepseek'' False ''u1'' =
        Inl (SystemExit 1 ''Error: No AI providers configured. Please check your API keys.'')
   \<and> check_available_providers (ra_provider_table deepseek_only_env) = [''deepseek'']
   \<and> \<not> isl (ResearchAssistant_init deepseek_only_env ''deepseek'')
   \<and> \<not> isl (TerminalResearchAssistant_init deepseek_only_env ''deepseek'' False ''u1'')"
proof -
  have r0: "check_available_providers (ra_provider_table no_keys_env) = []"
    by (simp add: check_available_providers_def ra_provider_table_def no_keys_env_def truthy_def)
  have r1: "check_available_providers (ra_provider_table deepseek_only_env) = [''deepseek'']"
    by (simp add: check_available_providers_def ra_provider_table_def deepseek_only_env_def
        truthy_def)
  show ?thesis
    using startup_without_providers [of no_keys_env "''deepseek''" False "''u1''"]
      startup_without_providers [of deepseek_only_env "''deepseek''" False "''u1''"]
      r0 r1 available_no_keys available_deepseek_only
    by simp
qed

subsection \<open>The enabled flag\<close>

text \<open>
  Claim C9, as stated: a provider is enabled if and only if its credential is non-null,
  non-empty and not a placeholder. It fails for \<open>AIClient\<close>: with
  \<^verbatim>\<open>DEEPSEEK_API_KEY=your_api_key_here\<close>, the placeholder that \<^verbatim>\<open>research_assistant.py\<close>
  rejects, the provider is enabled and listed as available.
\<close>

theorem placeholder_credential_enabled:
  "map (\<lambda>(n, config). (n, api_key config, enabled config))
       (providers (AIClient_init placeholder_env))
     = [(''deepseek'', Some ''your_api_key_here'', True), (''openai'', None, False),
        (''anthropic'', None, False), (''gemini'', None, False), (''huggingface'', None, False)]
   \<and> get_available_providers (AIClient_init placeholder_env) = [''deepseek'']"
  by (simp add: available_placeholder)
     (simp add: AIClient_init_def initialize_providers_def placeholder_env_def truthy_def Let_def)

lemma truthy_iff: "truthy v \<longleftrightarrow> (\<exists>k. v = Some k \<and> k \<noteq> [])"
  by (cases v) (simp_all add: truthy_def)

lemma enabled_initialize_providers:
  "(n, config) \<in> set (initialize_providers e) \<Longrightarrow>
     enabled config \<longleftrightarrow> (\<exists>k. api_key config = Some k \<and> k \<noteq> [])"
  by (auto simp: initialize_providers_def truthy_def split: option.splits)

lemma mem_check_available_providers:
  "n \<in> set (check_available_providers ps) \<longleftrightarrow>
     (\<exists>config. (n, config) \<in> set ps \<and> truthy (api_key config)
                \<and> api_key config \<noteq> Some ''your_api_key_here'')"
  unfolding check_available_providers_def set_map set_filter image_iff
  by (simp add: split_def Bex_def)

lemma ex_key_rearrange:
  "(\<exists>c. P c \<and> (\<exists>k. f c = Some k \<and> k \<noteq> a) \<and> f c \<noteq> Some b)
     \<longleftrightarrow> (\<exists>c k. P c \<and> f c = Some k \<and> k \<noteq> a \<and> k \<noteq> b)"
  by auto

text \<open>
  Claim C9, amended: in \<open>AIClient\<close> a provider is enabled if and only if its credential
  is non-null and non-empty, and \<open>get_available_providers\<close> lists exactly the enabled
  providers, in table order; the command-line \<open>ResearchAssistant\<close> lists a provider as
  available if and only if its credential is non-null, non-empty and not the placeholder
  \<^verbatim>\<open>your_api_key_here\<close>.
\<close>

theorem enabled_iff_credential_present:
  "(\<forall>(n, config) \<in> set (providers (AIClient_init e)).
       enabled config \<longleftrightarrow> (\<exists>k. api_key config = Some k \<and> k \<noteq> []))
   \<and> get_available_providers (AIClient_init e)
       = map fst (filter (\<lambda>(n, config). enabled config) (providers (AIClient_init e)))
   \<and> set (check_available_providers (ra_provider_table e))
       = {n. \<exists>config k. (n, config) \<in> set (ra_provider_table e) \<and> api_key config = Some k
               \<and> k \<noteq> [] \<and> k \<noteq> ''your_api_key_here''}"
proof (intro conjI)
  show "\<forall>(n, config) \<in> set (providers (AIClient_init e)).
       enabled config \<longleftrightarrow> (\<exists>k. api_key config = Some k \<and> k \<noteq> [])"
    using enabled_initialize_providers[of _ _ e] by (auto simp: AIClient_init_def Let_def)
  show "get_available_providers (AIClient_init e)
       = map fst (filter (\<lambda>(n, config). enabled config) (providers (AIClient_init e)))"
    by (simp add: get_available_providers_def)
  show "set (check_available_providers (ra_provider_table e))
       = {n. \<exists>config k. (n, config) \<in> set (ra_provider_table e) \<and> api_key config = Some k
               \<and> k \<noteq> [] \<and> k \<noteq> ''your_api_key_here''}"
    unfolding set_eq_iff mem_Collect_eq mem_check_available_providers truthy_iff
    by (simp add: ex_key_rearrange)
qed

theorem enabled_iff_credential_present_witness:
  "map (\<lambda>(n, config). (n, enabled config)) (providers (AIClient_init deepseek_only_env))
     = [(''deepseek'', True), (''openai'', False), (''anthropic'', False), (''gemini'', False),
        (''huggingface'', False)]
   \<and> get_available_providers (AIClient_init deepseek_only_env) = [''deepseek'']
   \<and> set (check_available_providers (ra_provider_table placeholder_env)) = {}"
proof -
  have p: "map (\<lambda>(n, config). (n, enabled config)) (providers (AIClient_init deepseek_only_env))
     = [(''deepseek'', True), (''openai'', False), (''anthropic'', False), (''gemini'', False),
        (''huggingface'', False)]"
    by (simp add: AIClient_init_def initialize_providers_def deepseek_only_env_def truthy_def
        Let_def)
  have r: "check_available_providers (ra_provider_table placeholder_env) = []"
    by (simp add: check_available_providers_def ra_provider_table_def placeholder_env_def
        truthy_def)
  show ?thesis
    using enabled_iff_credential_present [of deepseek_only_env]
      enabled_iff_credential_present [of placeholder_env] p r available_deepseek_only
    by simp
qed

section \<open>The research pipeline\<close>

text \<open>
  Claim C3: in a run of \<open>api_research\<close> with web search requested and available, the
  query passed to \<^verbatim>\<open>ai_client.query\<close> is the request's query itself when the search
  returns no result; otherwise it is the request's query followed by a blank line, the
  line \<^verbatim>\<open>Here are some web search results for context:\<close> and, joined by newlines, each
  result as \<^verbatim>\<open>Source: <title>\nContent: <snippet>\<close>. That string is the one answered by
  the provider and the one \<open>add_exchange\<close> stores as the query of the exchange.
\<close>

theorem api_research_dispatches_augmented_query:
  assumes "request_web_search data" "is_available (web_search app)"
      and "fst (search (web_search app) e serpapi pse (request_query data) ''auto'') = results"
  shows "let run = api_research app e serpapi pse net uuid data;
             sid = request_session_id uuid data;
             context = fst (get_context (memory_manager app) sid);
             sent = (if results = [] then request_query data
                     else request_query data
                          @ ''\<newline>\<newline>Here are some web search results for context:\<newline>''
                          @ join ''\<newline>''
                              (map (\<lambda>r. ''Source: '' @ py_str (title r)
                                         @ ''\<newline>Content: '' @ py_str (snippet r)) results))
         in adapter_call run = (request_provider app data, sent, context)
          \<and> response (reply run)
              = fst (query (ai_client app) net (request_provider app data) sent context)
          \<and> search_results (reply run) = results
          \<and> memory_manager (app_after run)
              = add_exchange (memory_manager app) sid sent (response (reply run))"
proof -
  obtain ctx where g:
    "get_context (memory_manager app) (request_session_id uuid data) = (ctx, memory_manager app)"
    by (cases "conversation_history (memory_manager app) (request_session_id uuid data)")
       (simp_all add: get_context_def Let_def)
  obtain out where s:
    "search (web_search app) e serpapi pse (request_query data) ''auto'' = (results, out)"
    using assms(3)
    by (cases "search (web_search app) e serpapi pse (request_query data) ''auto''") simp
  have r: "(\<lambda>r. ''Source: '' @ py_str (title r) @ ''\<newline>Content: '' @ py_str (snippet r))
             = render_result"
    by (rule ext) (simp add: render_result_def)
  show ?thesis
    unfolding r
    by (simp add: api_research_def Let_def assms(1,2) s g split: prod.split)
qed

lemma search_app_two_results:
  "fst (search (web_search search_app) search_env serpapi_two pse_one
          (request_query search_request) ''auto'')
   = [\<lparr>title = Some ''A'', link = Some ''http://a'', snippet = Some ''sa'', source = ''SerpAPI''\<rparr>,
      \<lparr>title = Some ''B'', link = Some ''http://b'', snippet = Some ''sb'', source = ''SerpAPI''\<rparr>]"
  by (simp add: search_app_def search_env_client search_def search_serpapi_def serpapi_two_def
        to_result_def raw_a_def raw_b_def Let_def)

lemma search_app_no_results:
  "fst (search (web_search search_app) search_env serpapi_empty pse_down
          (request_query search_request) ''auto'') = []"
  by (simp add: search_app_def search_env_client search_def search_serpapi_def
      search_google_pse_def serpapi_empty_def pse_down_def Let_def)

theorem api_research_dispatches_augmented_query_witness:
  "request_web_search search_request \<and> is_available (web_search search_app)
   \<and> adapter_call (api_research search_app search_env serpapi_two pse_one fixed_transport
                     ''u1'' search_request)
       = (''deepseek'',
          ''what?\<newline>\<newline>Here are some web search results for context:\<newline>Source: A\<newline>Content: sa\<newline>Source: B\<newline>Content: sb'',
          [])
   \<and> adapter_call (api_research search_app search_env serpapi_empty pse_down fixed_transport
                     ''u1'' search_request)
       = (''deepseek'', ''what?'', [])"
proof -
  have w: "request_web_search search_request"
    by (simp add: request_web_search_def search_request_def)
  have a: "is_available (web_search search_app)"
    by (simp add: is_available_def search_app_def search_env_client)
  have c: "fst (get_context (memory_manager search_app) (request_session_id ''u1'' search_request))
             = []"
    by (simp add: get_context_def search_app_def MemoryManager_default_def MemoryManager_init_def)
  have p: "request_provider search_app search_request = ''deepseek''"
    by (simp add: request_provider_def search_request_def)
  have q: "request_query search_request = ''what?''"
    by (simp add: request_query_def search_request_def)
  show ?thesis
    using api_research_dispatches_augmented_query
        [OF w a search_app_two_results, of fixed_transport "''u1''"]
      api_research_dispatches_augmented_query
        [OF w a search_app_no_results, of fixed_transport "''u1''"] w a
    by (simp add: Let_def c p q py_str_def)
qed

end
